theory Spec2Isabelle
  imports Complex_Main
begin

section \<open>Paths, file names and string helpers\<close>

text \<open>
  The two-argument case of \<^verbatim>\<open>os.path.join\<close> (POSIX): an absolute second component
  replaces the first; otherwise the components are joined by one separator.
\<close>

definition isabs :: "string \<Rightarrow> bool" where
  "isabs p = (case p of [] \<Rightarrow> False | c # _ \<Rightarrow> c = CHR ''/'')"

definition path_join :: "string \<Rightarrow> string \<Rightarrow> string" where
  "path_join a b =
     (if isabs b then b
      else if a = [] \<or> last a = CHR ''/'' then a @ b
      else a @ ''/'' @ b)"

text \<open>\<^verbatim>\<open>str(n)\<close> for a non-negative integer, and \<^verbatim>\<open>model.replace('/', '_')\<close>.\<close>

fun str_nat :: "nat \<Rightarrow> string" where
  "str_nat n =
     (if n < 10 then [char_of (48 + n)]
      else str_nat (n div 10) @ [char_of (48 + n mod 10)])"

declare str_nat.simps [simp del]

definition replace_slash :: "string \<Rightarrow> string" where
  "replace_slash s = map (\<lambda>c. if c = CHR ''/'' then CHR ''_'' else c) s"

text \<open>\<^verbatim>\<open>str(err)\<close> inside an f-string, for an optional string.\<close>

definition str_opt :: "string option \<Rightarrow> string" where
  "str_opt e = (case e of None \<Rightarrow> ''None'' | Some s \<Rightarrow> s)"

text \<open>
  \<^verbatim>\<open>error.strip()\<close> is truthy exactly when the string holds a character that is not
  white space (for ASCII: codes 9 to 13, 28 to 32).
\<close>

definition py_isspace :: "char \<Rightarrow> bool" where
  "py_isspace c = (let n = (of_char c :: nat) in (9 \<le> n \<and> n \<le> 13) \<or> (28 \<le> n \<and> n \<le> 32))"

definition strip_nonempty :: "string \<Rightarrow> bool" where
  "strip_nonempty s = (\<exists>c \<in> set s. \<not> py_isspace c)"

section \<open>GenerationStats\<close>

text \<open>
  Python floats are modelled as real numbers (exact arithmetic, no rounding); the
  collaborator-defined metrics mapping is a map from field names to numbers.
\<close>

type_synonym metrics = "string \<rightharpoonup> real"

record GenerationStats =
  cost :: real
  prompt_tokens :: int
  completion_tokens :: int
  total_tokens :: int
  quality_score :: "real option"
  execution_quality_score :: "real option"
  metrics_compilation :: metrics
  metrics_execution :: metrics

definition GenerationStats_init :: GenerationStats where
  "GenerationStats_init =
     \<lparr>cost = 0, prompt_tokens = 0, completion_tokens = 0, total_tokens = 0,
      quality_score = None, execution_quality_score = None,
      metrics_compilation = Map.empty, metrics_execution = Map.empty\<rparr>"

text \<open>
  The usage mapping returned by \<^verbatim>\<open>ask_any_model\<close>: a field is \<open>None\<close> when the key is
  absent. The empty mapping (every field absent) is the falsy value on which
  \<^verbatim>\<open>update\<close> returns at once; adding the defaults 0 has the same effect.
\<close>

record usage =
  u_cost :: "real option"
  u_prompt_tokens :: "int option"
  u_completion_tokens :: "int option"
  u_total_tokens :: "int option"
  u_quality_score :: "real option"

definition get_or :: "'a option \<Rightarrow> 'a \<Rightarrow> 'a" where
  "get_or v d = (case v of None \<Rightarrow> d | Some x \<Rightarrow> x)"

definition update :: "GenerationStats \<Rightarrow> usage \<Rightarrow> GenerationStats" where
  "update s u =
     (let s1 = s\<lparr>cost := cost s + get_or (u_cost u) 0,
                 prompt_tokens := prompt_tokens s + get_or (u_prompt_tokens u) 0,
                 completion_tokens := completion_tokens s + get_or (u_completion_tokens u) 0,
                 total_tokens := total_tokens s + get_or (u_total_tokens u) 0\<rparr>
      in case u_quality_score u of
           None \<Rightarrow> s1
         | Some q \<Rightarrow> s1\<lparr>quality_score := Some q\<rparr>)"

section \<open>The candidate state machine (ProgramProcessor)\<close>

text \<open>
  Every call a candidate issues to a collaborator, and every file it saves, is recorded
  in order (oldest first). Log lines embed wall-clock times and are not modelled.
\<close>

datatype purpose = Generation | Fixing

datatype event =
    AskModel purpose string
  | CompileProgram string
  | RunProgram string
  | SaveFile string string

text \<open>
  The collaborators are outside the repository. Each is a parameter; its reply may
  depend on the candidate's whole history of events so far, so that repeated calls may
  answer differently. The replies keep the components the processor reads:
  \<^verbatim>\<open>ask_any_model\<close> gives (code, usage, error), \<^verbatim>\<open>compile_generated_program\<close> gives
  (error, metrics), \<^verbatim>\<open>run_generated_program\<close> gives (error, metrics). Collaborator
  calls are taken to return; a call that raises is handled where the batch collects
  its tasks.
\<close>

record collab =
  path_exists :: "event list \<Rightarrow> string \<Rightarrow> bool"
  get_dynamic_prompt :: "string \<Rightarrow> (string \<times> string) list \<Rightarrow> string"
  ask_any_model :: "event list \<Rightarrow> string \<Rightarrow> string option \<times> usage \<times> string option"
  compile_generated_program :: "event list \<Rightarrow> string \<Rightarrow> string option \<times> metrics"
  run_generated_program :: "event list \<Rightarrow> string \<Rightarrow> string \<times> metrics"

record config =
  prompt_dir :: string
  n_fixing_cycles :: int
  compile_only :: bool

record processor =
  p_filename :: string
  stats :: GenerationStats
  encountered_errors :: "string list"
  events :: "event list"

definition filename_of :: "string \<Rightarrow> nat \<Rightarrow> string" where
  "filename_of model index = replace_slash model @ ''output'' @ str_nat (index + 1) @ ''.py''"

definition ProgramProcessor :: "nat \<Rightarrow> string \<Rightarrow> processor" where
  "ProgramProcessor index model =
     \<lparr>p_filename = filename_of model index, stats = GenerationStats_init,
      encountered_errors = [], events = []\<rparr>"

definition truthy :: "string option \<Rightarrow> bool" where
  "truthy c = (case c of None \<Rightarrow> False | Some s \<Rightarrow> s \<noteq> [])"

definition generate :: "collab \<Rightarrow> config \<Rightarrow> string \<Rightarrow> processor \<Rightarrow> string option \<times> processor" where
  "generate E cfg prompt_filename P =
     (let prompt_path = (if isabs prompt_filename then prompt_filename
                         else path_join (prompt_dir cfg) prompt_filename)
      in if \<not> path_exists E (events P) prompt_path then (None, P)
         else
           let prompt = get_dynamic_prompt E prompt_path [];
               (code, ustats, err) = ask_any_model E (events P) prompt;
               P1 = P\<lparr>events := events P @ [AskModel Generation prompt]\<rparr>
           in case code of
                None \<Rightarrow>
                  (None, P1\<lparr>encountered_errors :=
                              encountered_errors P1 @ [''Generation API Error: '' @ str_opt err]\<rparr>)
              | Some c \<Rightarrow> (Some c, P1\<lparr>stats := update (stats P1) ustats\<rparr>))"

definition compile_check :: "collab \<Rightarrow> string \<Rightarrow> processor \<Rightarrow> (bool \<times> string) \<times> processor" where
  "compile_check E code P =
     (let (error, m) = compile_generated_program E (events P) code;
          P1 = P\<lparr>events := events P @ [CompileProgram code],
                 stats := (stats P)\<lparr>metrics_compilation := m\<rparr>\<rparr>
      in if truthy error then
           ((False, the error),
            P1\<lparr>stats := (stats P1)\<lparr>quality_score := Some 0\<rparr>,
               encountered_errors :=
                 encountered_errors P1 @ [''Compilation Error:'' @ [CHR 0x0A] @ the error]\<rparr>)
         else
           ((True, []),
            P1\<lparr>stats := (stats P1)\<lparr>quality_score := Some (get_or (m ''quality_score'') 0)\<rparr>\<rparr>))"

definition run_check :: "collab \<Rightarrow> string \<Rightarrow> processor \<Rightarrow> (bool \<times> string) \<times> processor" where
  "run_check E code P =
     (let (error, m) = run_generated_program E (events P) code;
          P1 = P\<lparr>events := events P @ [RunProgram code],
                 stats := (stats P)\<lparr>metrics_execution := m,
                                    execution_quality_score := Some (get_or (m ''quality_score'') 0)\<rparr>\<rparr>
      in if strip_nonempty error then
           ((False, error),
            P1\<lparr>encountered_errors :=
                 encountered_errors P1 @ [''Runtime Error:'' @ [CHR 0x0A] @ error]\<rparr>)
         else ((True, []), P1))"

text \<open>
  \<^verbatim>\<open>for cycle in range(n_fixing_cycles)\<close>: the first argument counts the cycles that
  remain. Leaving the loop by \<^verbatim>\<open>break\<close> or by exhausting the range returns \<open>None\<close>.
\<close>

fun fix_cycles :: "nat \<Rightarrow> collab \<Rightarrow> config \<Rightarrow> string \<Rightarrow> string \<Rightarrow> processor \<Rightarrow> string option \<times> processor" where
  "fix_cycles 0 E cfg current_code current_error P = (None, P)"
| "fix_cycles (Suc k) E cfg current_code current_error P =
     (let prompt_path = path_join (prompt_dir cfg) ''fixing_prompt_template.txt''
      in if \<not> path_exists E (events P) prompt_path then (None, P)
         else
           let prompt = get_dynamic_prompt E prompt_path
                          [(''faulty_code'', current_code), (''error_message'', current_error)];
               (fixed_code, ustats, err) = ask_any_model E (events P) prompt;
               P1 = P\<lparr>events := events P @ [AskModel Fixing prompt]\<rparr>
           in if \<not> truthy fixed_code then (None, P1)
              else
                let fixed = the fixed_code;
                    P2 = P1\<lparr>stats := update (stats P1) ustats\<rparr>;
                    ((compile_ok, compile_err), P3) = compile_check E fixed P2
                in if \<not> compile_ok then fix_cycles k E cfg fixed compile_err P3
                   else if \<not> compile_only cfg then
                     (let ((run_ok, run_err), P4) = run_check E fixed P3
                      in if run_ok then (Some fixed, P4) else (Some fixed, P4))
                   else (Some fixed, P3))"

definition fix_loop :: "collab \<Rightarrow> config \<Rightarrow> string \<Rightarrow> string \<Rightarrow> processor \<Rightarrow> string option \<times> processor" where
  "fix_loop E cfg code initial_error P =
     fix_cycles (nat (n_fixing_cycles cfg)) E cfg code initial_error P"

text \<open>The 4-tuple returned by \<^verbatim>\<open>process\<close>.\<close>

record outcome =
  saved_path :: "string option"
  o_stats :: GenerationStats
  errors :: "string list"
  was_fixed :: bool

text \<open>
  \<^verbatim>\<open>list(set(xs))\<close> keeps one copy of each element, in an order Python leaves
  unspecified; \<open>remdups\<close> fixes one such order.
\<close>

definition list_set :: "string list \<Rightarrow> string list" where
  "list_set xs = remdups xs"

definition process :: "collab \<Rightarrow> config \<Rightarrow> processor \<Rightarrow> string \<Rightarrow> string \<Rightarrow> string \<Rightarrow> bool \<Rightarrow> outcome \<times> processor" where
  "process E cfg0 P0 generated_dir failed_dir prompt_filename compile_only_arg =
     (let cfg = cfg0\<lparr>compile_only := compile_only_arg\<rparr>;
          (code, P1) = generate E cfg prompt_filename P0
      in if \<not> truthy code then
           (\<lparr>saved_path = None, o_stats = stats P1, errors = encountered_errors P1,
             was_fixed = False\<rparr>, P1)
         else
           let c = the code;
               ((compile_ok, compile_err), P2) = compile_check E c P1
           in if compile_ok then
                (let P3 = (if \<not> compile_only_arg then snd (run_check E c P2) else P2);
                     save_path = path_join generated_dir (p_filename P3);
                     P4 = P3\<lparr>events := events P3 @ [SaveFile save_path c]\<rparr>
                 in (\<lparr>saved_path = Some save_path, o_stats = stats P4,
                      errors = list_set (encountered_errors P4), was_fixed = False\<rparr>, P4))
              else
                let (fixed_code, P3) = fix_loop E cfg c compile_err P2
                in if truthy fixed_code then
                     (let save_path = path_join generated_dir (p_filename P3);
                          P4 = P3\<lparr>events := events P3 @ [SaveFile save_path (the fixed_code)]\<rparr>
                      in (\<lparr>saved_path = Some save_path, o_stats = stats P4,
                           errors = list_set (encountered_errors P4), was_fixed = True\<rparr>, P4))
                   else
                     (let save_path = path_join failed_dir (p_filename P3);
                          P4 = P3\<lparr>events := events P3 @ [SaveFile save_path c]\<rparr>
                      in (\<lparr>saved_path = None, o_stats = stats P4,
                           errors = list_set (encountered_errors P4), was_fixed = True\<rparr>, P4)))"

text \<open>Observations on a candidate's trace: the fixing requests issued and the files saved.\<close>

fun fixing_requests :: "event list \<Rightarrow> nat" where
  "fixing_requests [] = 0"
| "fixing_requests (AskModel Fixing p # evs) = Suc (fixing_requests evs)"
| "fixing_requests (e # evs) = fixing_requests evs"

fun saves :: "event list \<Rightarrow> (string \<times> string) list" where
  "saves [] = []"
| "saves (SaveFile p t # evs) = (p, t) # saves evs"
| "saves (e # evs) = saves evs"

section \<open>The training loop\<close>

text \<open>
  \<^verbatim>\<open>sys.exit\<close> raises \<^verbatim>\<open>SystemExit\<close>, which \<^verbatim>\<open>except Exception\<close> does not catch; every
  other exception of the model is an \<^verbatim>\<open>Exception\<close>.
\<close>

datatype exn = SystemExit int | Exception string

text \<open>
  What the training phase sees of the outside: the collaborators of candidate \<open>i\<close> of
  round \<open>r\<close>, whether that task raises an unexpected exception instead of returning,
  and the files and the improver model consulted when round \<open>r\<close> asks for a better
  prompt. The arguments \<^verbatim>\<open>language\<close>, \<^verbatim>\<open>reasoning_effort\<close>, \<^verbatim>\<open>improver_model\<close> and
  \<^verbatim>\<open>max_workers\<close> are only handed to the collaborators and are absorbed into them.
\<close>

record world =
  w_candidate :: "nat \<Rightarrow> nat \<Rightarrow> collab"
  w_task_raises :: "nat \<Rightarrow> nat \<Rightarrow> string option"
  w_exists :: "nat \<Rightarrow> string \<Rightarrow> bool"
  w_read :: "nat \<Rightarrow> string \<Rightarrow> string"
  w_get_dynamic_prompt :: "string \<Rightarrow> (string \<times> string) list \<Rightarrow> string"
  w_ask_improver :: "nat \<Rightarrow> string \<Rightarrow> string option \<times> usage \<times> string option"

record args = config +
  training_n :: int
  training_threshold :: real
  improve_prompt :: bool
  n_programs :: int

fun join_lines :: "string \<Rightarrow> string list \<Rightarrow> string" where
  "join_lines sep [] = []"
| "join_lines sep [x] = x"
| "join_lines sep (x # y # ys) = x @ sep @ join_lines sep (y # ys)"

definition improve_prompt_logic ::
  "world \<Rightarrow> nat \<Rightarrow> string \<Rightarrow> string \<Rightarrow> string \<Rightarrow> string list \<Rightarrow> exn + string" where
  "improve_prompt_logic W r prompt_path common_prompt_dir output_path error_logs =
     (if \<not> w_exists W r prompt_path then Inl (SystemExit 1)
      else
        let original_content = w_read W r prompt_path;
            unique_errors = take 10 (list_set error_logs);
            errors_text = join_lines ([CHR 0x0A] @ ''---'' @ [CHR 0x0A]) unique_errors;
            template_path = path_join common_prompt_dir ''prompt_improvement_template.txt''
        in if \<not> w_exists W r template_path then
             Inl (Exception (''Prompt improvement template missing at '' @ template_path))
           else
             let meta_prompt = w_get_dynamic_prompt W template_path
                                 [(''original_content'', original_content),
                                  (''errors_text'', errors_text)];
                 (improved_content, ustats, err) = w_ask_improver W r meta_prompt
             in if truthy improved_content then Inr output_path else Inr prompt_path)"

text \<open>
  One submitted task: \<^verbatim>\<open>future.result()\<close> either raises or gives the tuple returned by
  \<^verbatim>\<open>process\<close>.
\<close>

definition task_result ::
  "world \<Rightarrow> 'a config_scheme \<Rightarrow> string \<Rightarrow> nat \<Rightarrow> string \<Rightarrow> string \<Rightarrow> string \<Rightarrow> bool \<Rightarrow> nat
     \<Rightarrow> string + outcome" where
  "task_result W a model r gen_dir fail_dir prompt_filename co i =
     (case w_task_raises W r i of
        Some e \<Rightarrow> Inl e
      | None \<Rightarrow>
          Inr (fst (process (w_candidate W r i) (config.truncate a) (ProgramProcessor i model)
                      gen_dir fail_dir prompt_filename co)))"

text \<open>
  The collection loop of a training round. Results are taken in submission order; the
  count does not depend on the order, and the order of the error list only reaches the
  improver.
\<close>

fun collect_training :: "(string + outcome) list \<Rightarrow> string list \<Rightarrow> nat \<Rightarrow> string list \<times> nat" where
  "collect_training [] training_errors count_needed_fix = (training_errors, count_needed_fix)"
| "collect_training (Inl e # rs) training_errors count_needed_fix =
     collect_training rs training_errors count_needed_fix"
| "collect_training (Inr out # rs) training_errors count_needed_fix =
     collect_training rs (training_errors @ errors out)
       (if was_fixed out then count_needed_fix + 1 else count_needed_fix)"

definition round_dir_of :: "string \<Rightarrow> string \<Rightarrow> nat \<Rightarrow> string" where
  "round_dir_of common_run_dir model round_idx =
     path_join (path_join (path_join common_run_dir ''training_phase'') (replace_slash model))
       (''round_'' @ str_nat round_idx)"

definition round_results ::
  "world \<Rightarrow> args \<Rightarrow> string \<Rightarrow> string \<Rightarrow> nat \<Rightarrow> string \<Rightarrow> (string + outcome) list" where
  "round_results W a model common_run_dir round_idx prompt_filename =
     (let round_dir = round_dir_of common_run_dir model round_idx;
          t_gen_dir = path_join round_dir ''generated'';
          t_fail_dir = path_join round_dir ''failed''
      in map (task_result W a model round_idx t_gen_dir t_fail_dir prompt_filename True)
           [0 ..< nat (training_n a)])"

definition run_round ::
  "world \<Rightarrow> args \<Rightarrow> string \<Rightarrow> string \<Rightarrow> nat \<Rightarrow> string \<Rightarrow> string list \<times> nat" where
  "run_round W a model common_run_dir round_idx prompt_filename =
     collect_training (round_results W a model common_run_dir round_idx prompt_filename) [] 0"

record TrainingRound =
  tr_index :: nat
  tr_prompt :: string
  tr_fix_ratio :: real

record training_run =
  t_result :: "exn + string"
  t_rounds :: "TrainingRound list"
  t_improve_calls :: nat

definition max_rounds :: nat where
  "max_rounds = 3"

text \<open>
  The value of a run that goes on after a round: the rounds and the calls of
  \<^verbatim>\<open>improve_prompt_logic\<close> of the rest of the run, with this round put in front.
\<close>

definition after_round :: "TrainingRound \<Rightarrow> nat \<Rightarrow> training_run \<Rightarrow> training_run" where
  "after_round t calls run =
     run\<lparr>t_rounds := t # t_rounds run, t_improve_calls := calls + t_improve_calls run\<rparr>"

text \<open>
  \<^verbatim>\<open>for round_idx in range(max_rounds + 1)\<close>: the first argument counts the rounds that
  remain. Besides the returned prompt (or the \<^verbatim>\<open>SystemExit\<close> that ends the run) the
  result lists the rounds that ran and counts the calls of \<^verbatim>\<open>improve_prompt_logic\<close>.
\<close>

fun training_rounds ::
  "nat \<Rightarrow> world \<Rightarrow> args \<Rightarrow> string \<Rightarrow> string \<Rightarrow> string \<Rightarrow> nat \<Rightarrow> string \<Rightarrow> string \<Rightarrow> real
     \<Rightarrow> training_run" where
  "training_rounds 0 W a model common_run_dir script_dir round_idx prompt_filename
       best_prompt best_fix_ratio =
     \<lparr>t_result = Inr best_prompt, t_rounds = [], t_improve_calls = 0\<rparr>"
| "training_rounds (Suc k) W a model common_run_dir script_dir round_idx prompt_filename
       best_prompt best_fix_ratio =
     (let round_dir = round_dir_of common_run_dir model round_idx;
          (training_errors, count_needed_fix) =
             run_round W a model common_run_dir round_idx prompt_filename;
          fix_ratio = real count_needed_fix / real_of_int (training_n a);
          this_round = \<lparr>tr_index = round_idx, tr_prompt = prompt_filename,
                         tr_fix_ratio = fix_ratio\<rparr>;
          best_fix_ratio1 = (if fix_ratio < best_fix_ratio then fix_ratio else best_fix_ratio);
          best_prompt1 = (if fix_ratio < best_fix_ratio then prompt_filename else best_prompt)
      in if fix_ratio < training_threshold a then
           \<lparr>t_result = Inr prompt_filename, t_rounds = [this_round], t_improve_calls = 0\<rparr>
         else if improve_prompt a \<and> round_idx < max_rounds then
           (let current_prompt_path =
                  (if \<not> isabs prompt_filename then path_join (prompt_dir a) prompt_filename
                   else prompt_filename);
                new_prompt_path = path_join round_dir ''improved_prompt.txt''
            in case improve_prompt_logic W round_idx current_prompt_path
                      (path_join script_dir ''Common_prompt_templates'') new_prompt_path
                      training_errors of
                 Inl (SystemExit n) \<Rightarrow>
                   \<lparr>t_result = Inl (SystemExit n), t_rounds = [this_round],
                    t_improve_calls = 1\<rparr>
               | Inl (Exception e) \<Rightarrow>
                   after_round this_round 1
                     (training_rounds k W a model common_run_dir script_dir (round_idx + 1)
                        prompt_filename best_prompt1 best_fix_ratio1)
               | Inr p \<Rightarrow>
                   after_round this_round 1
                     (training_rounds k W a model common_run_dir script_dir (round_idx + 1)
                        p best_prompt1 best_fix_ratio1))
         else
           after_round this_round 0
             (training_rounds k W a model common_run_dir script_dir (round_idx + 1)
                prompt_filename best_prompt1 best_fix_ratio1))"

definition run_training_phase :: "world \<Rightarrow> args \<Rightarrow> string \<Rightarrow> string \<Rightarrow> string \<Rightarrow> training_run" where
  "run_training_phase W a model common_run_dir script_dir =
     (let prompt_filename = ''generation_prompt.txt''
      in if training_n a \<le> 0 then
           \<lparr>t_result = Inr prompt_filename, t_rounds = [], t_improve_calls = 0\<rparr>
         else
           training_rounds (max_rounds + 1) W a model common_run_dir script_dir 0
             prompt_filename prompt_filename 1)"

section \<open>The production phase and its statistics\<close>

text \<open>
  The aggregation at the end of \<^verbatim>\<open>run_production_phase\<close>. The elapsed wall-clock time
  is a parameter.
\<close>

definition quality_scores :: "GenerationStats list \<Rightarrow> real list" where
  "quality_scores stats_list = List.map_filter quality_score stats_list"

definition avg_quality :: "GenerationStats list \<Rightarrow> real" where
  "avg_quality stats_list =
     (let qs = quality_scores stats_list
      in if qs \<noteq> [] then sum_list qs / real (length qs) else 0)"

record summary =
  total_cost :: real
  total_time :: real
  total_programs :: int
  valid_programs :: nat
  avg_quality_score :: real
  sum_prompt_tokens :: int
  sum_completion_tokens :: int
  sum_total_tokens :: int
  avg_time_per_valid :: real

definition aggregate :: "GenerationStats list \<Rightarrow> string list \<Rightarrow> real \<Rightarrow> int \<Rightarrow> summary" where
  "aggregate stats_list successful_files elapsed n =
     \<lparr>total_cost = sum_list (map cost stats_list),
      total_time = elapsed,
      total_programs = n,
      valid_programs = length successful_files,
      avg_quality_score = avg_quality stats_list,
      sum_prompt_tokens = sum_list (map prompt_tokens stats_list),
      sum_completion_tokens = sum_list (map completion_tokens stats_list),
      sum_total_tokens = sum_list (map total_tokens stats_list),
      avg_time_per_valid =
        (if successful_files \<noteq> [] then elapsed / real (length successful_files) else 0)\<rparr>"

text \<open>
  The collection loop of the production batch: a task that raised contributes nothing;
  a returned task contributes its statistics (a \<^verbatim>\<open>GenerationStats\<close> object is always
  truthy) and, when its saved path is truthy, a successful file.
\<close>

fun collect_production ::
  "(string + outcome) list \<Rightarrow> string list \<Rightarrow> GenerationStats list
     \<Rightarrow> string list \<times> GenerationStats list" where
  "collect_production [] successful_files stats_list = (successful_files, stats_list)"
| "collect_production (Inl e # rs) successful_files stats_list =
     collect_production rs successful_files stats_list"
| "collect_production (Inr out # rs) successful_files stats_list =
     collect_production rs
       (if truthy (saved_path out) then successful_files @ [the (saved_path out)]
        else successful_files)
       (stats_list @ [o_stats out])"

definition run_production_phase ::
  "world \<Rightarrow> args \<Rightarrow> string \<Rightarrow> string \<Rightarrow> string \<Rightarrow> real \<Rightarrow> string list \<times> summary" where
  "run_production_phase W a model prompt_filename common_run_dir elapsed =
     (let gen_dir = path_join common_run_dir ''generated'';
          fail_dir = path_join common_run_dir ''failed_programs'';
          results = map (task_result W a model 0 gen_dir fail_dir prompt_filename False)
                      [0 ..< nat (n_programs a)];
          (successful_files, stats_list) = collect_production results [] []
      in (successful_files, aggregate stats_list successful_files elapsed (n_programs a)))"

section \<open>The combination sampler (circuit\_assembler.main)\<close>

text \<open>
  \<^verbatim>\<open>math.perm(n, k)\<close> on non-negative arguments: the number of \<open>k\<close>-permutations of \<open>n\<close>
  items, 0 when \<open>k > n\<close>.
\<close>

definition permutation_count :: "nat \<Rightarrow> nat \<Rightarrow> nat" where
  "permutation_count n_items k_items =
     (if k_items \<le> n_items then fact n_items div fact (n_items - k_items) else 0)"

definition max_unique_combinations :: "nat \<Rightarrow> nat \<Rightarrow> nat \<Rightarrow> nat" where
  "max_unique_combinations n_files min_files max_files =
     sum_list (map (permutation_count n_files) [min_files ..< max_files + 1])"

text \<open>
  The random source and the external assembler, indexed by the number of the loop
  iteration: \<^verbatim>\<open>random.randint(a, b)\<close>, \<^verbatim>\<open>random.sample(population, k)\<close>, and whether
  \<^verbatim>\<open>assemble\<close> returns (\<open>True\<close>) or raises (\<open>False\<close>).
\<close>

record sampler_env =
  input_files :: "string list"
  randint :: "nat \<Rightarrow> nat \<Rightarrow> nat \<Rightarrow> nat"
  sample :: "nat \<Rightarrow> string list \<Rightarrow> nat \<Rightarrow> string list"
  assemble :: "nat \<Rightarrow> string list \<Rightarrow> string \<Rightarrow> nat \<Rightarrow> bool"

text \<open>
  What the library promises of the random source: \<open>randint a b\<close> lies in \<open>[a, b]\<close>, and
  \<open>sample xs k\<close> picks \<open>k\<close> elements of \<open>xs\<close> at distinct positions.
\<close>

definition random_ok :: "sampler_env \<Rightarrow> bool" where
  "random_ok E =
     ((\<forall>i a b. a \<le> b \<longrightarrow> a \<le> randint E i a b \<and> randint E i a b \<le> b) \<and>
      (\<forall>i xs k. k \<le> length xs \<longrightarrow>
         length (sample E i xs k) = k \<and> set (sample E i xs k) \<subseteq> set xs \<and>
         (distinct xs \<longrightarrow> distinct (sample E i xs k))))"

record sampler_args =
  output_dir :: string
  n_generations :: int
  min_files :: int
  max_files :: int

record sampler_state =
  iteration :: nat
  seen_combinations :: "string list set"
  generated_count :: nat
  failed_count :: nat
  attempts_without_progress :: nat
  attempted :: "string list list"
  produced :: "string list"
  error_log :: "string list list"

definition sampler_init :: sampler_state where
  "sampler_init =
     \<lparr>iteration = 0, seen_combinations = {}, generated_count = 0, failed_count = 0,
      attempts_without_progress = 0, attempted = [], produced = [], error_log = []\<rparr>"

text \<open>
  One pass through the body of the \<^verbatim>\<open>while\<close> loop. Besides the variables of the source
  the state records the combinations handed to \<^verbatim>\<open>assemble\<close>, the output files of the
  successful calls, and the combinations whose failure was logged.
\<close>

definition sampler_step :: "sampler_env \<Rightarrow> string \<Rightarrow> nat \<Rightarrow> nat \<Rightarrow> sampler_state \<Rightarrow> sampler_state" where
  "sampler_step E out_dir min_k effective_max_files S =
     (let k = randint E (iteration S) min_k effective_max_files;
          selected_files = sample E (iteration S) (input_files E) k;
          combo_key = selected_files
      in if combo_key \<in> seen_combinations S then
           S\<lparr>iteration := iteration S + 1,
             attempts_without_progress := attempts_without_progress S + 1\<rparr>
         else
           let S1 = S\<lparr>iteration := iteration S + 1,
                      seen_combinations := insert combo_key (seen_combinations S),
                      attempted := attempted S @ [combo_key]\<rparr>;
               output_file = path_join out_dir
                               (''assembled_circuit_'' @ str_nat (generated_count S) @ ''.py'')
           in if assemble E (iteration S) selected_files output_file (generated_count S) then
                S1\<lparr>generated_count := generated_count S + 1,
                   attempts_without_progress := 0,
                   produced := produced S @ [output_file]\<rparr>
              else
                S1\<lparr>failed_count := failed_count S + 1,
                   attempts_without_progress := attempts_without_progress S + 1,
                   error_log := error_log S @ [selected_files]\<rparr>)"

function sampler_loop ::
  "sampler_env \<Rightarrow> string \<Rightarrow> nat \<Rightarrow> nat \<Rightarrow> nat \<Rightarrow> nat \<Rightarrow> sampler_state \<Rightarrow> sampler_state" where
  "sampler_loop E out_dir min_k effective_max_files target_generations
       max_attempts_without_progress S =
     (if generated_count S < target_generations
         \<and> attempts_without_progress S < max_attempts_without_progress
      then sampler_loop E out_dir min_k effective_max_files target_generations
             max_attempts_without_progress (sampler_step E out_dir min_k effective_max_files S)
      else S)"
  by pat_completeness auto
termination
  by (relation "measures
        [\<lambda>(E, d, lo, hi, target, lim, S). target - generated_count S,
         \<lambda>(E, d, lo, hi, target, lim, S). lim - attempts_without_progress S]")
     (auto simp: sampler_step_def Let_def)

declare sampler_loop.simps [simp del]

text \<open>
  \<^verbatim>\<open>main\<close> after argument parsing. It returns the exit code; when the sampling loop is
  reached, the effective target, whether the cap was reported and the final loop state
  are given as well.
\<close>

record sampler_run =
  exit_code :: int
  target :: "nat option"
  cap_reported :: bool
  final :: "sampler_state option"

definition usage_exit :: sampler_run where
  "usage_exit = \<lparr>exit_code = 1, target = None, cap_reported = False, final = None\<rparr>"

definition main :: "sampler_env \<Rightarrow> sampler_args \<Rightarrow> sampler_run" where
  "main E a =
     (if n_generations a < 1 then usage_exit
      else if min_files a < 1 then usage_exit
      else if max_files a < min_files a then usage_exit
      else if input_files E = [] then usage_exit
      else
        let effective_max_files = min (max_files a) (int (length (input_files E)))
        in if min_files a > int (length (input_files E)) then usage_exit
           else
             let max_possible = max_unique_combinations (length (input_files E))
                                  (nat (min_files a)) (nat effective_max_files);
                 target_generations = min (n_generations a) (int max_possible);
                 max_attempts_without_progress = max 1000 (target_generations * 25);
                 S = sampler_loop E (output_dir a) (nat (min_files a)) (nat effective_max_files)
                       (nat target_generations) (nat max_attempts_without_progress) sampler_init
             in \<lparr>exit_code = (if generated_count S > 0 then 0 else 1),
                 target = Some (nat target_generations),
                 cap_reported = (target_generations < n_generations a),
                 final = Some S\<rparr>)"

section \<open>The assembly step of the pipeline (assemble\_circuits)\<close>

text \<open>
  The second sampling loop of the repository, run on the files of the production
  phase (the \<open>input_files\<close> of the environment). A fresh selection that the assembler
  rejects resets the duplicate counter and counts nowhere, so the loop need not end for an arbitrary random
  source: not returning is the value \<open>None\<close>.
\<close>

record assembly_state =
  a_iteration :: nat
  seen :: "string list set"
  count :: nat
  attempts :: nat
  a_attempted :: "string list list"

definition assembly_init :: assembly_state where
  "assembly_init = \<lparr>a_iteration = 0, seen = {}, count = 0, attempts = 0, a_attempted = []\<rparr>"

definition assemble_step ::
  "sampler_env \<Rightarrow> string \<Rightarrow> string \<Rightarrow> int \<Rightarrow> assembly_state \<Rightarrow> assembly_state" where
  "assemble_step E model out_dir n_circuits_per_assembly S =
     (let files = input_files E;
          max_k0 = min n_circuits_per_assembly (int (length files));
          max_k = (if max_k0 < 1 then 1 else max_k0);
          k = randint E (a_iteration S) 1 (nat max_k);
          selection = sample E (a_iteration S) files k
      in if selection \<in> seen S then
           S\<lparr>a_iteration := a_iteration S + 1, attempts := attempts S + 1\<rparr>
         else
           let S1 = S\<lparr>a_iteration := a_iteration S + 1,
                      seen := insert selection (seen S),
                      attempts := 0,
                      a_attempted := a_attempted S @ [selection]\<rparr>
           in if assemble E (a_iteration S) selection
                   (path_join out_dir (replace_slash model @ ''_'' @ str_nat (count S) @ ''.py''))
                   (count S)
              then S1\<lparr>count := count S + 1\<rparr>
              else S1)"

partial_function (option) assemble_loop ::
  "sampler_env \<Rightarrow> string \<Rightarrow> string \<Rightarrow> int \<Rightarrow> int \<Rightarrow> assembly_state \<Rightarrow> assembly_state option" where
  "assemble_loop E model out_dir n_circuits_per_assembly n_assemble S =
     (if int (count S) < n_assemble \<and> attempts S < 1000 then
        (if input_files E = [] then Some S
         else assemble_loop E model out_dir n_circuits_per_assembly n_assemble
                (assemble_step E model out_dir n_circuits_per_assembly S))
      else Some S)"

definition assemble_circuits ::
  "sampler_env \<Rightarrow> string \<Rightarrow> int \<Rightarrow> int \<Rightarrow> string \<Rightarrow> assembly_state option" where
  "assemble_circuits E model n_circuits_per_assembly n_assemble base_dir =
     assemble_loop E model (path_join base_dir ''assembled'') n_circuits_per_assembly n_assemble
       assembly_init"

section \<open>Scripted collaborators\<close>

text \<open>
  Concrete collaborators on which the theorems below are instantiated: the model answers
  by prompt, the compiler accepts exactly the listed programs, and running a program
  reports the given error text.
\<close>

definition no_usage :: usage where
  "no_usage = \<lparr>u_cost = None, u_prompt_tokens = None, u_completion_tokens = None,
               u_total_tokens = None, u_quality_score = None\<rparr>"

definition three_versions :: "string \<Rightarrow> string option" where
  "three_versions prompt =
     (if prompt = ''generate'' then Some ''v0''
      else if prompt = ''fix v0'' then Some ''v1''
      else if prompt = ''fix v1'' then Some ''v2''
      else None)"

definition scripted :: "(string \<Rightarrow> string option) \<Rightarrow> string list \<Rightarrow> string \<Rightarrow> collab" where
  "scripted reply ok_codes run_error =
     \<lparr>path_exists = (\<lambda>h p. True),
      get_dynamic_prompt = (\<lambda>path subs. case subs of [] \<Rightarrow> ''generate'' | (k, v) # _ \<Rightarrow> ''fix '' @ v),
      ask_any_model = (\<lambda>h prompt. (reply prompt, no_usage, None)),
      compile_generated_program =
        (\<lambda>h code. (if code \<in> set ok_codes then None else Some ''SyntaxError'', Map.empty)),
      run_generated_program = (\<lambda>h code. (run_error, Map.empty))\<rparr>"

definition demo_config :: "int \<Rightarrow> config" where
  "demo_config n = \<lparr>prompt_dir = ''prompts'', n_fixing_cycles = n, compile_only = False\<rparr>"

definition only_generation :: "string \<Rightarrow> string option" where
  "only_generation prompt = (if prompt = ''generate'' then Some ''v0'' else None)"

definition never_answers :: "string \<Rightarrow> string option" where
  "never_answers prompt = None"

text \<open>
  A training world in which no task raises, every file exists and the improver always
  answers; and the arguments of a run with a one-cycle fix budget.
\<close>

definition demo_world :: "(nat \<Rightarrow> nat \<Rightarrow> collab) \<Rightarrow> world" where
  "demo_world cands =
     \<lparr>w_candidate = cands, w_task_raises = (\<lambda>r i. None), w_exists = (\<lambda>r p. True),
      w_read = (\<lambda>r p. ''text''), w_get_dynamic_prompt = (\<lambda>p subs. ''meta''),
      w_ask_improver = (\<lambda>r p. (Some ''better'', no_usage, None))\<rparr>"

definition demo_args :: "int \<Rightarrow> real \<Rightarrow> bool \<Rightarrow> args" where
  "demo_args n threshold improve =
     \<lparr>prompt_dir = ''prompts'', n_fixing_cycles = 1, compile_only = False,
      training_n = n, training_threshold = threshold, improve_prompt = improve,
      n_programs = n\<rparr>"

text \<open>
  Candidates that all compile at once; candidates of which both need a fix in rounds 0
  and 3 and only the first one in rounds 1 and 2; and candidates of which the first
  gets no code from the model and the second needs a fix.
\<close>

definition clean_candidates :: "nat \<Rightarrow> nat \<Rightarrow> collab" where
  "clean_candidates r i = scripted three_versions [''v0''] []"

definition mixed_candidates :: "nat \<Rightarrow> nat \<Rightarrow> collab" where
  "mixed_candidates r i =
     scripted three_versions (if r = 0 \<or> r = 3 \<or> i = 0 then [''v1''] else [''v0'']) []"

definition flaky_candidates :: "nat \<Rightarrow> nat \<Rightarrow> collab" where
  "flaky_candidates r i = scripted (if i = 0 then never_answers else three_versions) [''v1''] []"

text \<open>Statistics of a candidate that reported the given quality score, or none.\<close>

definition scored :: "real option \<Rightarrow> GenerationStats" where
  "scored q = GenerationStats_init\<lparr>quality_score := q\<rparr>"

text \<open>
  A deterministic random source for the sampler: \<open>randint\<close> cycles through the range
  and \<open>sample\<close> takes a prefix of a rotation; the assembler succeeds as told.
\<close>

definition demo_sampler :: "string list \<Rightarrow> (nat \<Rightarrow> bool) \<Rightarrow> sampler_env" where
  "demo_sampler files ok =
     \<lparr>input_files = files,
      randint = (\<lambda>i a b. a + i mod (b - a + 1)),
      sample = (\<lambda>i xs k. take k (rotate i xs)),
      assemble = (\<lambda>i selected out cnt. ok i)\<rparr>"

definition demo_sampler_args :: "int \<Rightarrow> int \<Rightarrow> int \<Rightarrow> sampler_args" where
  "demo_sampler_args n lo hi =
     \<lparr>output_dir = ''out'', n_generations = n, min_files = lo, max_files = hi\<rparr>"

section \<open>Observations used to state the properties\<close>

text \<open>A task result that the training loop counts as having needed a fix.\<close>

definition counted_fixed :: "string + outcome \<Rightarrow> bool" where
  "counted_fixed r = (case r of Inl e \<Rightarrow> False | Inr out \<Rightarrow> was_fixed out)"

text \<open>
  Candidate \<open>i\<close> of a training round returns, and its generation step gave no code
  (missing prompt, API failure or empty text).
\<close>

definition generation_failed :: "world \<Rightarrow> args \<Rightarrow> string \<Rightarrow> nat \<Rightarrow> string \<Rightarrow> nat \<Rightarrow> bool" where
  "generation_failed W a model round_idx prompt_filename i =
     (w_task_raises W round_idx i = None \<and>
      \<not> truthy (fst (generate (w_candidate W round_idx i)
                        ((config.truncate a)\<lparr>compile_only := True\<rparr>) prompt_filename
                        (ProgramProcessor i model))))"

text \<open>The fix ratio that a round measures for a prompt.\<close>

definition round_fix_ratio :: "world \<Rightarrow> args \<Rightarrow> string \<Rightarrow> string \<Rightarrow> nat \<Rightarrow> string \<Rightarrow> real" where
  "round_fix_ratio W a model common_run_dir round_idx prompt_filename =
     real (snd (run_round W a model common_run_dir round_idx prompt_filename))
       / real_of_int (training_n a)"

text \<open>
  The best round in the words of the specification: the round with the lowest fix
  ratio, the earlier one on a tie, provided it improved on the initial best ratio 1.0;
  otherwise the starting prompt.
\<close>

definition spec_best_prompt :: "string \<Rightarrow> TrainingRound list \<Rightarrow> string" where
  "spec_best_prompt start rounds =
     (case filter (\<lambda>t. tr_fix_ratio t < 1 \<and> (\<forall>u \<in> set rounds. tr_fix_ratio t \<le> tr_fix_ratio u))
             rounds of
        [] \<Rightarrow> start
      | t # ts \<Rightarrow> tr_prompt t)"

text \<open>
  The best prompt and ratio kept by the loop after a list of rounds, started from a
  given pair: the update of \<^verbatim>\<open>best_prompt\<close> and \<^verbatim>\<open>best_fix_ratio\<close> taken alone.
\<close>

fun best_after :: "string \<times> real \<Rightarrow> TrainingRound list \<Rightarrow> string \<times> real" where
  "best_after b [] = b"
| "best_after b (t # ts) =
     best_after (if tr_fix_ratio t < snd b then (tr_prompt t, tr_fix_ratio t) else b) ts"

section \<open>Properties of the candidate state machine\<close>

lemma fixing_requests_append [simp]:
  "fixing_requests (xs @ ys) = fixing_requests xs + fixing_requests ys"
  by (induction xs rule: fixing_requests.induct) simp_all

lemma saves_append [simp]: "saves (xs @ ys) = saves xs @ saves ys"
  by (induction xs rule: saves.induct) simp_all

lemma generate_keeps:
  "generate E cfg pf P = (r, P') \<Longrightarrow>
     p_filename P' = p_filename P \<and> fixing_requests (events P') = fixing_requests (events P)
     \<and> saves (events P') = saves (events P)"
  by (auto simp: generate_def Let_def split: prod.splits option.splits if_splits)

lemma compile_check_keeps:
  "compile_check E c P = (r, P') \<Longrightarrow>
     p_filename P' = p_filename P \<and> events P' = events P @ [CompileProgram c]"
  by (auto simp: compile_check_def Let_def split: prod.splits if_splits)

lemma run_check_keeps:
  "run_check E c P = (r, P') \<Longrightarrow>
     p_filename P' = p_filename P \<and> events P' = events P @ [RunProgram c]"
  by (auto simp: run_check_def Let_def split: prod.splits if_splits)

lemma compile_check_run_indep:
  "compile_check (E\<lparr>run_generated_program := R\<rparr>) c P = compile_check E c P"
  by (simp add: compile_check_def)

lemma fix_cycles_Some:
  "fix_cycles k E cfg c e P = (Some fixed, P') \<Longrightarrow> \<not> compile_only cfg \<Longrightarrow>
     fixed \<noteq> [] \<and> p_filename P' = p_filename P \<and> saves (events P') = saves (events P)
     \<and> (\<exists>evs. events P' = evs @ [CompileProgram fixed, RunProgram fixed])"
proof (induction k arbitrary: c e P)
  case 0
  then show ?case by simp
next
  case (Suc k)
  let ?pp = "path_join (prompt_dir cfg) ''fixing_prompt_template.txt''"
  let ?prompt = "get_dynamic_prompt E ?pp [(''faulty_code'', c), (''error_message'', e)]"
  from Suc.prems have ex: "path_exists E (events P) ?pp"
    by (auto simp: Let_def split: if_splits)
  obtain fc us er where ask: "ask_any_model E (events P) ?prompt = (fc, us, er)"
    by (metis prod_cases3)
  from Suc.prems ex ask have tr: "truthy fc"
    by (auto simp: Let_def split: if_splits)
  let ?P2 = "P\<lparr>events := events P @ [AskModel Fixing ?prompt],
               stats := update (stats P) us\<rparr>"
  obtain ok ce P3 where cc: "compile_check E (the fc) ?P2 = ((ok, ce), P3)"
    by (metis surj_pair)
  note k3 = compile_check_keeps [OF cc]
  show ?case
  proof (cases ok)
    case False
    with Suc.prems ex ask tr cc have "fix_cycles k E cfg (the fc) ce P3 = (Some fixed, P')"
      by (simp add: Let_def)
    from Suc.IH [OF this Suc.prems(2)] k3 show ?thesis by auto
  next
    case True
    obtain rr P4 where rc: "run_check E (the fc) P3 = (rr, P4)" by (metis surj_pair)
    note k4 = run_check_keeps [OF rc]
    from Suc.prems ex ask tr cc True rc have "fixed = the fc" "P' = P4"
      by (auto simp: Let_def split: prod.splits if_splits)
    with k3 k4 tr show ?thesis by (auto simp: truthy_def split: option.splits)
  qed
qed

lemma fix_cycles_keeps:
  "fix_cycles k E cfg c e P = (r, P') \<Longrightarrow>
     p_filename P' = p_filename P \<and> saves (events P') = saves (events P)"
proof (induction k arbitrary: c e P)
  case 0
  then show ?case by simp
next
  case (Suc k)
  let ?pp = "path_join (prompt_dir cfg) ''fixing_prompt_template.txt''"
  let ?prompt = "get_dynamic_prompt E ?pp [(''faulty_code'', c), (''error_message'', e)]"
  show ?case
  proof (cases "path_exists E (events P) ?pp")
    case False
    with Suc.prems show ?thesis by (simp add: Let_def)
  next
    case ex: True
    obtain fc us er where ask: "ask_any_model E (events P) ?prompt = (fc, us, er)"
      by (metis prod_cases3)
    show ?thesis
    proof (cases "truthy fc")
      case False
      with Suc.prems ex ask show ?thesis by (auto simp: Let_def)
    next
      case tr: True
      let ?P2 = "P\<lparr>events := events P @ [AskModel Fixing ?prompt],
                   stats := update (stats P) us\<rparr>"
      obtain ok ce P3 where cc: "compile_check E (the fc) ?P2 = ((ok, ce), P3)"
        by (metis surj_pair)
      note k3 = compile_check_keeps [OF cc]
      show ?thesis
      proof (cases ok)
        case False
        with Suc.prems ex ask tr cc have "fix_cycles k E cfg (the fc) ce P3 = (r, P')"
          by (simp add: Let_def)
        from Suc.IH [OF this] k3 show ?thesis by auto
      next
        case True
        obtain rr P4 where rc: "run_check E (the fc) P3 = (rr, P4)" by (metis surj_pair)
        note k4 = run_check_keeps [OF rc]
        from Suc.prems ex ask tr cc True rc have "P' = P4 \<or> P' = P3"
          by (auto simp: Let_def split: prod.splits if_splits)
        with k3 k4 show ?thesis by auto
      qed
    qed
  qed
qed

lemma fix_cycles_run_indep:
  "fst (fix_cycles k (E\<lparr>run_generated_program := R\<rparr>) cfg c e P) = fst (fix_cycles k E cfg c e P)"
  by (induction k arbitrary: c e P)
     (auto simp: Let_def compile_check_run_indep split: prod.splits)

lemma generate_run_indep:
  "generate (E\<lparr>run_generated_program := R\<rparr>) cfg pf P = generate E cfg pf P"
  by (simp add: generate_def Let_def)

lemma process_fixed:
  assumes gen: "generate E (cfg\<lparr>compile_only := False\<rparr>) pf (ProgramProcessor index model) = (code, P1)"
    and tr: "truthy code"
    and cc: "compile_check E (the code) P1 = ((False, err), P2)"
    and fl: "fix_loop E (cfg\<lparr>compile_only := False\<rparr>) (the code) err P2 = (Some fixed, P3)"
    and res: "process E cfg (ProgramProcessor index model) gdir fdir pf False = (out, P')"
  shows "saved_path out = Some (path_join gdir (filename_of model index))
       \<and> was_fixed out
       \<and> saves (events P') = [(path_join gdir (filename_of model index), fixed)]
       \<and> (\<exists>evs. events P' = evs @ [CompileProgram fixed, RunProgram fixed,
                                     SaveFile (path_join gdir (filename_of model index)) fixed])"
proof -
  have f1: "p_filename P1 = filename_of model index" "saves (events P1) = []"
    using generate_keeps [OF gen] by (simp_all add: ProgramProcessor_def)
  have f2: "p_filename P2 = p_filename P1" "events P2 = events P1 @ [CompileProgram (the code)]"
    using compile_check_keeps [OF cc] by simp_all
  have fc: "fix_cycles (nat (n_fixing_cycles cfg)) E (cfg\<lparr>compile_only := False\<rparr>) (the code) err P2
              = (Some fixed, P3)"
    using fl by (simp add: fix_loop_def)
  have f3: "fixed \<noteq> []" "p_filename P3 = p_filename P2" "saves (events P3) = saves (events P2)"
    using fix_cycles_Some [OF fc] by simp_all
  obtain evs where ev: "events P3 = evs @ [CompileProgram fixed, RunProgram fixed]"
    using fix_cycles_Some [OF fc] by auto
  show ?thesis
    using res tr f1 f2 f3 ev
    by (auto simp: process_def gen cc fl truthy_def Let_def)
qed

text \<open>
  Claim C1. Take a candidate whose generation returns code, whose first compile check
  fails and whose fix loop returns fixed code (some cycle within the budget compiled),
  with compile-only mode off. Whatever the execution check then reports (the run
  collaborator \<open>R\<close> is arbitrary, so it may succeed or fail), the candidate ends
  successful: the saved path is the generated location, \<open>was_fixed\<close> is true, the only
  file written is the fixed code at the generated location, and the trace ends with the
  successful compile of the fixed code, its execution check and the save, so that no
  fixing request or compile follows the execution check.
\<close>

theorem fixed_code_is_terminal:
  fixes E :: collab and cfg :: config and R :: "event list \<Rightarrow> string \<Rightarrow> string \<times> metrics"
    and index :: nat and model pf gdir fdir :: string
  defines "P0 \<equiv> ProgramProcessor index model"
    and "cfg' \<equiv> cfg\<lparr>compile_only := False\<rparr>"
  defines "g \<equiv> generate E cfg' pf P0"
  defines "cc \<equiv> compile_check E (the (fst g)) (snd g)"
  defines "r \<equiv> process (E\<lparr>run_generated_program := R\<rparr>) cfg P0 gdir fdir pf False"
  assumes tr: "truthy (fst g)"
    and bad: "\<not> fst (fst cc)"
    and fl: "fst (fix_loop E cfg' (the (fst g)) (snd (fst cc)) (snd cc)) = Some fixed"
  shows "saved_path (fst r) = Some (path_join gdir (filename_of model index))
       \<and> was_fixed (fst r)
       \<and> saves (events (snd r)) = [(path_join gdir (filename_of model index), fixed)]
       \<and> (\<exists>evs. events (snd r) = evs @ [CompileProgram fixed, RunProgram fixed,
                                     SaveFile (path_join gdir (filename_of model index)) fixed])"
proof -
  let ?E = "E\<lparr>run_generated_program := R\<rparr>"
  have gen: "generate ?E cfg' pf P0 = (fst g, snd g)"
    by (simp add: generate_run_indep g_def)
  have c1: "compile_check ?E (the (fst g)) (snd g) = ((False, snd (fst cc)), snd cc)"
    using bad by (simp add: compile_check_run_indep cc_def prod_eq_iff)
  have "fst (fix_loop ?E cfg' (the (fst g)) (snd (fst cc)) (snd cc)) = Some fixed"
    using fl by (simp add: fix_loop_def fix_cycles_run_indep)
  then obtain P3 where f: "fix_loop ?E cfg' (the (fst g)) (snd (fst cc)) (snd cc) = (Some fixed, P3)"
    by (metis prod.collapse)
  have res: "process ?E cfg P0 gdir fdir pf False = (fst r, snd r)" by (simp add: r_def)
  show ?thesis
    using process_fixed [OF gen [unfolded cfg'_def P0_def] tr c1 f [unfolded cfg'_def]
        res [unfolded P0_def]]
    by simp
qed

lemmas scripted_eval =
  scripted_def three_versions_def demo_config_def no_usage_def generate_def compile_check_def
  run_check_def fix_loop_def process_def ProgramProcessor_def truthy_def isabs_def
  path_join_def Let_def eval_nat_numeral strip_nonempty_def py_isspace_def

theorem fixed_code_is_terminal_witness:
  "truthy (fst (generate (scripted three_versions [''v2''] []) (demo_config 2\<lparr>compile_only := False\<rparr>)
                 ''generation_prompt.txt'' (ProgramProcessor 0 ''m'')))
   \<and> fst (fix_loop (scripted three_versions [''v2''] []) (demo_config 2\<lparr>compile_only := False\<rparr>)
            ''v0'' ''SyntaxError''
            (snd (compile_check (scripted three_versions [''v2''] []) ''v0''
               (snd (generate (scripted three_versions [''v2''] [])
                  (demo_config 2\<lparr>compile_only := False\<rparr>) ''generation_prompt.txt''
                  (ProgramProcessor 0 ''m'')))))) = Some ''v2''
   \<and> was_fixed (fst (process
        (scripted three_versions [''v2''] []\<lparr>run_generated_program := \<lambda>h c. (''Traceback'', Map.empty)\<rparr>)
        (demo_config 2) (ProgramProcessor 0 ''m'') ''generated'' ''failed''
        ''generation_prompt.txt'' False))
   \<and> saved_path (fst (process
        (scripted three_versions [''v2''] []\<lparr>run_generated_program := \<lambda>h c. (''Traceback'', Map.empty)\<rparr>)
        (demo_config 2) (ProgramProcessor 0 ''m'') ''generated'' ''failed''
        ''generation_prompt.txt'' False))
      = Some (path_join ''generated'' (filename_of ''m'' 0))"
proof -
  let ?E = "scripted three_versions [''v2''] []"
  let ?cfg = "demo_config 2"
  let ?g = "generate ?E (?cfg\<lparr>compile_only := False\<rparr>) ''generation_prompt.txt'' (ProgramProcessor 0 ''m'')"
  have g: "fst ?g = Some ''v0''"
    by (simp add: scripted_eval)
  have h1: "truthy (fst ?g)"
    by (simp add: g truthy_def)
  have h2: "\<not> fst (fst (compile_check ?E (the (fst ?g)) (snd ?g)))"
    by (simp add: scripted_eval)
  have e: "snd (fst (compile_check ?E (the (fst ?g)) (snd ?g))) = ''SyntaxError''"
    by (simp add: scripted_eval)
  have h3: "fst (fix_loop ?E (?cfg\<lparr>compile_only := False\<rparr>) (the (fst ?g))
              (snd (fst (compile_check ?E (the (fst ?g)) (snd ?g))))
              (snd (compile_check ?E (the (fst ?g)) (snd ?g)))) = Some ''v2''"
    by (simp add: scripted_eval)
  show ?thesis
    using fixed_code_is_terminal [where E = ?E and cfg = ?cfg and pf = "''generation_prompt.txt''"
        and index = 0 and model = "''m''" and fixed = "''v2''"
        and R = "\<lambda>h c. (''Traceback'', Map.empty)" and gdir = "''generated''"
        and fdir = "''failed''", OF h1 h2 h3] h1 h3 g e
    by simp
qed

text \<open>
  Claim C6. A candidate whose generation returns code and whose first compile check
  succeeds issues no fixing request, returns \<open>was_fixed = False\<close>, and saves the
  generated code, and nothing else, at the generated location.
\<close>

theorem first_compile_success_skips_fixer:
  fixes E :: collab and cfg :: config and index :: nat and model pf gdir fdir :: string
    and co :: bool
  defines "P0 \<equiv> ProgramProcessor index model"
  defines "g \<equiv> generate E (cfg\<lparr>compile_only := co\<rparr>) pf P0"
  defines "r \<equiv> process E cfg P0 gdir fdir pf co"
  assumes tr: "truthy (fst g)"
    and ok: "fst (fst (compile_check E (the (fst g)) (snd g)))"
  shows "fixing_requests (events (snd r)) = 0
       \<and> \<not> was_fixed (fst r)
       \<and> saved_path (fst r) = Some (path_join gdir (filename_of model index))
       \<and> saves (events (snd r)) = [(path_join gdir (filename_of model index), the (fst g))]"
proof -
  have gen: "generate E (cfg\<lparr>compile_only := co\<rparr>) pf (ProgramProcessor index model) = (fst g, snd g)"
    by (simp add: g_def P0_def)
  have f1: "p_filename (snd g) = filename_of model index"
    "fixing_requests (events (snd g)) = 0" "saves (events (snd g)) = []"
    using generate_keeps [OF gen] by (simp_all add: ProgramProcessor_def)
  obtain b e P2 where cc: "compile_check E (the (fst g)) (snd g) = ((b, e), P2)"
    by (metis surj_pair)
  have e2: "events P2 = events (snd g) @ [CompileProgram (the (fst g))]"
    "p_filename P2 = p_filename (snd g)"
    using compile_check_keeps [OF cc] by simp_all
  obtain r3 P3 where rc: "run_check E (the (fst g)) P2 = (r3, P3)"
    by (metis surj_pair)
  have e3: "events P3 = events P2 @ [RunProgram (the (fst g))]" "p_filename P3 = p_filename P2"
    using run_check_keeps [OF rc] by simp_all
  from ok cc have b: "b" by simp
  show ?thesis
    using tr b f1 e2 e3
    by (auto simp: r_def P0_def process_def gen cc rc Let_def case_prod_beta)
qed

theorem first_compile_success_skips_fixer_witness:
  "truthy (fst (generate (scripted three_versions [''v0''] []) (demo_config 2\<lparr>compile_only := False\<rparr>)
                 ''generation_prompt.txt'' (ProgramProcessor 0 ''m'')))
   \<and> fixing_requests (events (snd (process (scripted three_versions [''v0''] []) (demo_config 2)
        (ProgramProcessor 0 ''m'') ''generated'' ''failed'' ''generation_prompt.txt'' False))) = 0
   \<and> \<not> was_fixed (fst (process (scripted three_versions [''v0''] []) (demo_config 2)
        (ProgramProcessor 0 ''m'') ''generated'' ''failed'' ''generation_prompt.txt'' False))
   \<and> saves (events (snd (process (scripted three_versions [''v0''] []) (demo_config 2)
        (ProgramProcessor 0 ''m'') ''generated'' ''failed'' ''generation_prompt.txt'' False)))
      = [(path_join ''generated'' (filename_of ''m'' 0), ''v0'')]"
proof -
  let ?E = "scripted three_versions [''v0''] []"
  let ?g = "generate ?E (demo_config 2\<lparr>compile_only := False\<rparr>) ''generation_prompt.txt''
              (ProgramProcessor 0 ''m'')"
  have g: "fst ?g = Some ''v0''"
    by (simp add: scripted_eval)
  have h1: "truthy (fst ?g)"
    by (simp add: g truthy_def)
  have h2: "fst (fst (compile_check ?E (the (fst ?g)) (snd ?g)))"
    by (simp add: scripted_eval)
  show ?thesis
    using first_compile_success_skips_fixer [where E = ?E and cfg = "demo_config 2" and co = False
        and pf = "''generation_prompt.txt''" and index = 0 and model = "''m''"
        and gdir = "''generated''" and fdir = "''failed''", OF h1 h2] h1 g
    by simp
qed

text \<open>
  The two ways in which the fix loop ends without compiling code: no attempt ever
  compiles (so the cycles are exhausted or the loop is left earlier), or the fixer
  returns no code.
\<close>

lemma fix_cycles_never_compiles:
  "(\<forall>h c. truthy (fst (compile_generated_program E h c))) \<Longrightarrow>
     fst (fix_cycles k E cfg c e P) = None"
proof (induction k arbitrary: c e P)
  case 0
  show ?case by simp
next
  case (Suc k)
  have bad: "\<not> fst (fst (compile_check E c P))" for c P
    using Suc.prems by (simp add: compile_check_def Let_def case_prod_beta)
  show ?case
    using Suc.IH [OF Suc.prems] bad
    by (simp add: Let_def case_prod_beta)
qed

lemma fix_cycles_fixer_fails:
  "path_exists E (events P) (path_join (prompt_dir cfg) ''fixing_prompt_template.txt'') \<Longrightarrow>
   \<not> truthy (fst (ask_any_model E (events P)
        (get_dynamic_prompt E (path_join (prompt_dir cfg) ''fixing_prompt_template.txt'')
           [(''faulty_code'', c), (''error_message'', e)]))) \<Longrightarrow>
   fst (fix_cycles (Suc k) E cfg c e P) = None"
  by (simp add: Let_def case_prod_beta)

text \<open>
  Claim C7. Take a candidate whose generation returns code and whose first compile check
  fails. If the fix loop ends with no result (the cycles are exhausted without a
  successful compile, or the fixer returns no code), the candidate returns no saved
  path and \<open>was_fixed = True\<close>, and the only file written is the original generated
  code, not a fix attempt, at the failed location.
\<close>

theorem unrepaired_candidate_fails:
  fixes E :: collab and cfg :: config and index :: nat and model pf gdir fdir :: string
    and co :: bool
  defines "P0 \<equiv> ProgramProcessor index model"
    and "cfg' \<equiv> cfg\<lparr>compile_only := co\<rparr>"
  defines "g \<equiv> generate E cfg' pf P0"
  defines "cc \<equiv> compile_check E (the (fst g)) (snd g)"
  defines "r \<equiv> process E cfg P0 gdir fdir pf co"
  assumes tr: "truthy (fst g)"
    and bad: "\<not> fst (fst cc)"
    and fl: "fst (fix_loop E cfg' (the (fst g)) (snd (fst cc)) (snd cc)) = None"
  shows "saved_path (fst r) = None
       \<and> was_fixed (fst r)
       \<and> saves (events (snd r)) = [(path_join fdir (filename_of model index), the (fst g))]"
proof -
  have gen: "generate E (cfg\<lparr>compile_only := co\<rparr>) pf (ProgramProcessor index model) = (fst g, snd g)"
    by (simp add: g_def P0_def cfg'_def)
  have f1: "p_filename (snd g) = filename_of model index" "saves (events (snd g)) = []"
    using generate_keeps [OF gen] by (simp_all add: ProgramProcessor_def)
  have c1: "compile_check E (the (fst g)) (snd g) = ((False, snd (fst cc)), snd cc)"
    using bad by (simp add: cc_def prod_eq_iff)
  have f2: "p_filename (snd cc) = p_filename (snd g)"
    "events (snd cc) = events (snd g) @ [CompileProgram (the (fst g))]"
    using compile_check_keeps [OF c1] by simp_all
  obtain P3 where f: "fix_loop E (cfg\<lparr>compile_only := co\<rparr>) (the (fst g)) (snd (fst cc)) (snd cc)
                        = (None, P3)"
    using fl by (metis prod.collapse cfg'_def)
  have f3: "p_filename P3 = p_filename (snd cc)" "saves (events P3) = saves (events (snd cc))"
    using fix_cycles_keeps [OF f [unfolded fix_loop_def]] by simp_all
  show ?thesis
    using tr f1 f2 f3
    by (auto simp: r_def P0_def process_def gen c1 f Let_def truthy_def case_prod_beta)
qed

theorem unrepaired_candidate_fails_witness:
  "fst (fix_loop (scripted three_versions [] []) (demo_config 2\<lparr>compile_only := False\<rparr>) ''v0''
          ''SyntaxError''
          (snd (compile_check (scripted three_versions [] []) ''v0''
             (snd (generate (scripted three_versions [] []) (demo_config 2\<lparr>compile_only := False\<rparr>)
                ''generation_prompt.txt'' (ProgramProcessor 0 ''m'')))))) = None
   \<and> saved_path (fst (process (scripted three_versions [] []) (demo_config 2)
        (ProgramProcessor 0 ''m'') ''generated'' ''failed'' ''generation_prompt.txt'' False)) = None
   \<and> was_fixed (fst (process (scripted three_versions [] []) (demo_config 2)
        (ProgramProcessor 0 ''m'') ''generated'' ''failed'' ''generation_prompt.txt'' False))
   \<and> saves (events (snd (process (scripted three_versions [] []) (demo_config 2)
        (ProgramProcessor 0 ''m'') ''generated'' ''failed'' ''generation_prompt.txt'' False)))
      = [(path_join ''failed'' (filename_of ''m'' 0), ''v0'')]
   \<and> fixing_requests (events (snd (process (scripted three_versions [] []) (demo_config 2)
        (ProgramProcessor 0 ''m'') ''generated'' ''failed'' ''generation_prompt.txt'' False))) = 2
   \<and> saved_path (fst (process (scripted only_generation [] []) (demo_config 2)
        (ProgramProcessor 0 ''m'') ''generated'' ''failed'' ''generation_prompt.txt'' False)) = None
   \<and> saves (events (snd (process (scripted only_generation [] []) (demo_config 2)
        (ProgramProcessor 0 ''m'') ''generated'' ''failed'' ''generation_prompt.txt'' False)))
      = [(path_join ''failed'' (filename_of ''m'' 0), ''v0'')]"
proof -
  let ?E = "scripted three_versions [] []"
  let ?F = "scripted only_generation [] []"
  let ?c = "demo_config 2\<lparr>compile_only := False\<rparr>"
  let ?g = "generate ?E ?c ''generation_prompt.txt'' (ProgramProcessor 0 ''m'')"
  let ?g' = "generate ?F ?c ''generation_prompt.txt'' (ProgramProcessor 0 ''m'')"
  have g: "fst ?g = Some ''v0''" "fst ?g' = Some ''v0''"
    by (simp_all add: scripted_eval only_generation_def)
  have h1: "truthy (fst ?g)" "truthy (fst ?g')"
    by (simp_all add: g truthy_def)
  have h2: "\<not> fst (fst (compile_check ?E (the (fst ?g)) (snd ?g)))"
    "\<not> fst (fst (compile_check ?F (the (fst ?g')) (snd ?g')))"
    by (simp_all add: scripted_eval only_generation_def)
  have e: "snd (fst (compile_check ?E (the (fst ?g)) (snd ?g))) = ''SyntaxError''"
    by (simp add: scripted_eval)
  have h3: "fst (fix_loop ?E ?c (the (fst ?g))
              (snd (fst (compile_check ?E (the (fst ?g)) (snd ?g))))
              (snd (compile_check ?E (the (fst ?g)) (snd ?g)))) = None"
    by (simp add: scripted_eval)
  have h3': "fst (fix_loop ?F ?c (the (fst ?g'))
              (snd (fst (compile_check ?F (the (fst ?g')) (snd ?g'))))
              (snd (compile_check ?F (the (fst ?g')) (snd ?g')))) = None"
    by (simp add: scripted_eval only_generation_def)
  have n: "fixing_requests (events (snd (process ?E (demo_config 2)
        (ProgramProcessor 0 ''m'') ''generated'' ''failed'' ''generation_prompt.txt'' False))) = 2"
    by (simp add: scripted_eval)
  show ?thesis
    using unrepaired_candidate_fails [where E = ?E and cfg = "demo_config 2" and co = False
        and pf = "''generation_prompt.txt''" and index = 0 and model = "''m''"
        and gdir = "''generated''" and fdir = "''failed''", OF h1(1) h2(1) h3]
      unrepaired_candidate_fails [where E = ?F and cfg = "demo_config 2" and co = False
        and pf = "''generation_prompt.txt''" and index = 0 and model = "''m''"
        and gdir = "''generated''" and fdir = "''failed''", OF h1(2) h2(2) h3'] h3 g e n
    by simp
qed

lemma generate_errors:
  "generate E cfg pf P = (r, P') \<Longrightarrow> encountered_errors P = [] \<Longrightarrow>
     length (encountered_errors P') \<le> 1"
  by (auto simp: generate_def Let_def split: prod.splits option.splits if_splits)

text \<open>
  Claim C9. On every outcome of a candidate (generation failure, success without
  fixing, success after fixing, failure after fixing) the returned list of error
  messages has no duplicates.
\<close>

theorem returned_errors_distinct:
  "distinct (errors (fst (process E cfg (ProgramProcessor index model) gdir fdir pf co)))"
proof -
  obtain code P1 where gen: "generate E (cfg\<lparr>compile_only := co\<rparr>) pf (ProgramProcessor index model)
                               = (code, P1)"
    by (metis surj_pair)
  have "length (encountered_errors P1) \<le> 1"
    using generate_errors [OF gen] by (simp add: ProgramProcessor_def)
  then have d: "distinct (encountered_errors P1)"
    by (cases "encountered_errors P1") auto
  show ?thesis
    using d
    by (simp add: process_def gen Let_def list_set_def split: prod.splits)
qed

theorem returned_errors_distinct_witness:
  "distinct (errors (fst (process (scripted three_versions [] []) (demo_config 2)
      (ProgramProcessor 0 ''m'') ''generated'' ''failed'' ''generation_prompt.txt'' False)))
   \<and> \<not> distinct (encountered_errors (snd (process (scripted three_versions [] []) (demo_config 2)
      (ProgramProcessor 0 ''m'') ''generated'' ''failed'' ''generation_prompt.txt'' False)))"
proof -
  have "\<not> distinct (encountered_errors (snd (process (scripted three_versions [] []) (demo_config 2)
      (ProgramProcessor 0 ''m'') ''generated'' ''failed'' ''generation_prompt.txt'' False)))"
    by (simp add: scripted_eval)
  then show ?thesis
    using returned_errors_distinct [where E = "scripted three_versions [] []"
        and cfg = "demo_config 2" and index = 0 and model = "''m''" and gdir = "''generated''"
        and fdir = "''failed''" and pf = "''generation_prompt.txt''" and co = False]
    by simp
qed

end
